theory Spec2Isabelle
  imports Complex_Main "HOL-Library.Word" "HOL-Library.Log_Nat"
begin

unbundle bit_operations_syntax

section \<open>Bytes, hexadecimal text and randomness\<close>

text \<open>
  A Node \<open>Buffer\<close> is a list of bytes. \<open>Buffer.toString('hex')\<close> writes two lower-case
  digits per byte; \<open>Buffer.from(s, 'hex')\<close> reads pairs of digits and stops at the first
  pair that is not hexadecimal (a trailing single character is dropped).
\<close>

type_synonym byte = "8 word"
type_synonym bytes = "byte list"

definition hex_digit :: "nat \<Rightarrow> char" where
  "hex_digit n = ''0123456789abcdef'' ! (n mod 16)"

definition to_hex :: "bytes \<Rightarrow> string" where
  "to_hex bs = concat (map (\<lambda>b. [hex_digit (unat b div 16), hex_digit (unat b mod 16)]) bs)"

definition hex_val :: "char \<Rightarrow> nat option" where
  "hex_val c =
     (let n = (of_char c :: nat) in
      if 48 \<le> n \<and> n \<le> 57 then Some (n - 48)
      else if 97 \<le> n \<and> n \<le> 102 then Some (n - 87)
      else if 65 \<le> n \<and> n \<le> 70 then Some (n - 55)
      else None)"

fun from_hex :: "string \<Rightarrow> bytes" where
  "from_hex (a # b # rest) =
     (case hex_val a of
        None \<Rightarrow> []
      | Some x \<Rightarrow> (case hex_val b of
                    None \<Rightarrow> []
                  | Some y \<Rightarrow> word_of_nat (16 * x + y) # from_hex rest))"
| "from_hex _ = []"

fun show_nat :: "nat \<Rightarrow> string" where
  "show_nat n =
     (if n < 10 then [char_of (48 + n)]
      else show_nat (n div 10) @ [char_of (48 + n mod 10)])"

declare show_nat.simps [simp del]

text \<open>
  Array indexing as JavaScript has it: \<open>xs[i]\<close> is \<open>undefined\<close> outside the array.
\<close>

definition nth_opt :: "'a list \<Rightarrow> nat \<Rightarrow> 'a option" where
  "nth_opt xs i = (if i < length xs then Some (xs ! i) else None)"

definition js_index :: "'a list \<Rightarrow> int \<Rightarrow> 'a option" where
  "js_index xs i = (if 0 \<le> i \<and> nat i < length xs then Some (xs ! nat i) else None)"

text \<open>
  Randomness is a tape of bytes read from a position that only moves forward:
  \<open>randomBytes(n)\<close> returns the next \<open>n\<close> bytes of the tape.
\<close>

type_synonym entropy = "nat \<Rightarrow> byte"

definition randomBytes :: "entropy \<Rightarrow> nat \<Rightarrow> nat \<Rightarrow> bytes \<times> nat" where
  "randomBytes tape pos n = (map tape [pos..<pos + n], pos + n)"

section \<open>The collaborators outside the repository\<close>

text \<open>
  The libraries and services the code calls are parameters of the model: the P-256 curve
  of \<open>@noble/curves\<close>, SHA-256 and AES-256-GCM of \<open>node:crypto\<close>, the JWT check of
  \<open>hono/jwt\<close>, \<open>groth16.verify\<close> of \<open>snarkjs\<close>, the bucket name of the process
  environment and the presigner of the storage SDK. A result \<open>None\<close> is a call that throws.
  \<open>aes_256_gcm key iv plaintext\<close> is \<open>createCipheriv\<close>, \<open>update\<close>, \<open>final\<close> and
  \<open>getAuthTag\<close> together: the ciphertext and the tag.
\<close>

datatype jwt_result = JwtThrows | JwtPayload "string option"

record env =
  random_tape :: entropy
  p256_randomSecretKey :: "nat \<Rightarrow> bytes \<times> nat"
  p256_getPublicKey :: "bytes \<Rightarrow> bytes"
  p256_getSharedSecret :: "bytes \<Rightarrow> bytes \<Rightarrow> bytes option"
  sha256 :: "bytes \<Rightarrow> bytes"
  aes_256_gcm :: "bytes \<Rightarrow> bytes \<Rightarrow> bytes \<Rightarrow> (bytes \<times> bytes) option"
  aes_256_gcm_open :: "bytes \<Rightarrow> bytes \<Rightarrow> bytes \<Rightarrow> bytes \<Rightarrow> bytes option"
  verifyJwt :: "string \<Rightarrow> jwt_result"
  groth16_verify :: "string list \<Rightarrow> string \<Rightarrow> bool option"
  R2_BUCKET_NAME :: "string option"
  getSignedUrl :: "string \<Rightarrow> string \<Rightarrow> string option"

text \<open>
  What the model relies on of AES-256-GCM: with a 32-byte key and a 12-byte nonce the
  cipher returns a ciphertext as long as the plaintext and a 16-byte tag.
\<close>

definition gcm_contract :: "env \<Rightarrow> bool" where
  "gcm_contract E =
     (\<forall>key iv pt. length key = 32 \<and> length iv = 12 \<longrightarrow>
        (\<exists>ct tag. aes_256_gcm E key iv pt = Some (ct, tag)
           \<and> length ct = length pt \<and> length tag = 16))"

definition gcm_roundtrip :: "env \<Rightarrow> bool" where
  "gcm_roundtrip E =
     (\<forall>key iv pt ct tag. aes_256_gcm E key iv pt = Some (ct, tag) \<longrightarrow>
        aes_256_gcm_open E key iv ct tag = Some pt)"

section \<open>Crypto primitives (src/ot\_crypto.ts)\<close>

datatype exn = TypeError | InvalidPoint | CipherFailure | VerifierFailure

definition generateServerOtKeyPair :: "env \<Rightarrow> nat \<Rightarrow> (bytes \<times> bytes) \<times> nat" where
  "generateServerOtKeyPair E pos =
     (let (privateKey, pos') = p256_randomSecretKey E pos;
          publicKey = p256_getPublicKey E privateKey
      in ((privateKey, publicKey), pos'))"

definition deriveServerSharedSecret :: "env \<Rightarrow> bytes \<Rightarrow> bytes \<Rightarrow> exn + bytes" where
  "deriveServerSharedSecret E serverPrivateKey clientPublicKey =
     (case p256_getSharedSecret E serverPrivateKey clientPublicKey of
        None \<Rightarrow> Inl InvalidPoint
      | Some sharedSecret \<Rightarrow> Inr (sha256 E sharedSecret))"

definition aesGcmEncrypt :: "env \<Rightarrow> nat \<Rightarrow> bytes \<Rightarrow> bytes \<Rightarrow> (exn + bytes) \<times> nat" where
  "aesGcmEncrypt E pos key plaintext =
     (let (iv, pos') = randomBytes (random_tape E) pos 12 in
      case aes_256_gcm E key iv plaintext of
        None \<Rightarrow> (Inl CipherFailure, pos')
      | Some (ciphertext, authTag) \<Rightarrow> (Inr (iv @ ciphertext @ authTag), pos'))"

text \<open>
  Modelled from the spec: \<open>aead_decrypt\<close>, the inverse of \<open>aead_encrypt\<close> on the layout
  nonce, ciphertext, 16-byte tag. The repository has no decryption function (the receiver
  is another program).
\<close>

definition aead_decrypt :: "env \<Rightarrow> bytes \<Rightarrow> bytes \<Rightarrow> bytes option" where
  "aead_decrypt E key blob =
     (if length blob < 28 then None
      else aes_256_gcm_open E key (take 12 blob)
             (take (length blob - 28) (drop 12 blob)) (drop (length blob - 16) blob))"

section \<open>The persisted store\<close>

datatype purchase_status = Pending | Paid | Verified | Completed | Failed

fun status_text :: "purchase_status \<Rightarrow> string" where
  "status_text Pending = ''pending''"
| "status_text Paid = ''paid''"
| "status_text Verified = ''verified''"
| "status_text Completed = ''completed''"
| "status_text Failed = ''failed''"

record purchase_row =
  purchase_id :: string
  user_id :: string
  status :: purchase_status
  commitment :: string
  nullifier_hash :: "string option"
  stripe_payment_intent_id :: string

record book_row =
  book_id :: int
  file_key :: string
  secret_key :: string

record world =
  purchases :: "purchase_row list"
  catalog :: "book_row list"
  rng_pos :: nat

datatype db_error = UniqueViolation | OtherDbError

text \<open>
  \<open>UPDATE purchases SET ... WHERE ...\<close>: the number of rows the condition selects and
  the table with those rows rewritten.
\<close>

definition sql_update ::
  "(purchase_row \<Rightarrow> bool) \<Rightarrow> (purchase_row \<Rightarrow> purchase_row) \<Rightarrow> purchase_row list
     \<Rightarrow> nat \<times> purchase_row list" where
  "sql_update cond upd tbl = (length (filter cond tbl), map (\<lambda>p. if cond p then upd p else p) tbl)"

text \<open>
  Modelled from the spec: the table's schema is not among the sources. The spec requires a
  uniqueness constraint on the nullifier across all purchases, and the code handles its
  violation (SQLSTATE 23505). An update that would store a non-null nullifier already held
  by a row it does not rewrite, or store it in two rows, raises the violation and changes
  nothing.
\<close>

definition nullifier_conflict ::
  "(purchase_row \<Rightarrow> bool) \<Rightarrow> string option \<Rightarrow> purchase_row list \<Rightarrow> bool" where
  "nullifier_conflict cond n tbl =
     (case n of
        None \<Rightarrow> False
      | Some v \<Rightarrow>
          (let hits = filter cond tbl in
           if hits = [] then False
           else if 1 < length hits then True
           else list_ex (\<lambda>p. (if cond p then False else nullifier_hash p = Some v)) tbl))"

text \<open>The webhook's statement (routes/webhook.ts): paid where the intent matches and pending.\<close>

definition update_paid :: "string \<Rightarrow> purchase_row list \<Rightarrow> nat \<times> purchase_row list" where
  "update_paid paymentIntentId tbl =
     sql_update (\<lambda>p. stripe_payment_intent_id p = paymentIntentId \<and> status p = Pending)
       (\<lambda>p. p\<lparr>status := Paid\<rparr>) tbl"

text \<open>The statement of \<open>ZKP_PROVE\<close>: verified and the nullifier, where the id matches and paid.\<close>

definition update_verified ::
  "string option \<Rightarrow> string \<Rightarrow> purchase_row list \<Rightarrow> db_error + (nat \<times> purchase_row list)" where
  "update_verified n purchaseId tbl =
     (let cond = (\<lambda>p. purchase_id p = purchaseId \<and> status p = Paid) in
      if nullifier_conflict cond n tbl then Inl UniqueViolation
      else Inr (sql_update cond (\<lambda>p. p\<lparr>status := Verified, nullifier_hash := n\<rparr>) tbl))"

text \<open>The statement of \<open>DOWNLOAD_READY\<close>: completed where the id matches.\<close>

definition update_completed :: "string \<Rightarrow> purchase_row list \<Rightarrow> nat \<times> purchase_row list" where
  "update_completed purchaseId tbl =
     sql_update (\<lambda>p. purchase_id p = purchaseId) (\<lambda>p. p\<lparr>status := Completed\<rparr>) tbl"

definition select_purchase :: "string \<Rightarrow> string \<Rightarrow> purchase_row list \<Rightarrow> purchase_row list" where
  "select_purchase purchaseId uid tbl =
     filter (\<lambda>p. purchase_id p = purchaseId \<and> user_id p = uid) tbl"

definition select_books :: "book_row list \<Rightarrow> book_row list" where
  "select_books tbl = sort_key book_id tbl"

section \<open>Messages and effects\<close>

datatype client_msg =
    INIT string
  | ZKP_PROVE string "string list"
  | OT_ACK_START
  | OT_ROUND_RESPONSE int string
  | OT_ROUNDS_COMPLETE
  | REQUEST_SIGNED_URL int
  | DOWNLOAD_READY
  | OtherMessage string

datatype server_msg =
    ZKP_READY
  | OT_START nat
  | OT_ROUND_START nat
  | OT_ROUND_CHALLENGE int string string string string
  | OT_DELIVER "string list"
  | SIGNED_URL string

text \<open>
  What a handler does to the outside, in order: a message sent, the connection closed with
  a code and a reason, the proof verifier called, an exception that leaves the handler.
\<close>

datatype effect =
    Send server_msg
  | Close nat string
  | Groth16Verify "string list" string
  | Uncaught exn

fun is_deliver :: "effect \<Rightarrow> bool" where
  "is_deliver (Send (OT_DELIVER cs)) = True"
| "is_deliver _ = False"

fun is_final :: "effect \<Rightarrow> bool" where
  "is_final (Close code reason) = True"
| "is_final (Uncaught e) = True"
| "is_final _ = False"

section \<open>The oblivious-transfer sender (class SemiHonestOtSender)\<close>

record ot_sender =
  bookSecrets :: "bytes list"
  choiceBitCount :: nat
  currentRound :: nat
  roundSeeds :: "(bytes \<times> bytes) list"

text \<open>
  \<open>books.length > 1 ? Math.ceil(Math.log2(books.length)) : 0\<close>. The logarithm is taken
  over the reals: \<open>ceillog2 n\<close> is \<open>nat \<lceil>log 2 (real n)\<rceil>\<close> for positive \<open>n\<close>.
\<close>

definition choice_bits :: "nat \<Rightarrow> nat" where
  "choice_bits n = (if 1 < n then ceillog2 n else 0)"

text \<open>The constructor's loop: two fresh 32-byte seeds per round, pushed in round order.\<close>

fun draw_seeds :: "entropy \<Rightarrow> nat \<Rightarrow> nat \<Rightarrow> (bytes \<times> bytes) list \<times> nat" where
  "draw_seeds tape pos 0 = ([], pos)"
| "draw_seeds tape pos (Suc n) =
     (let (seed0, p1) = randomBytes tape pos 32;
          (seed1, p2) = randomBytes tape p1 32;
          (rest, p3) = draw_seeds tape p2 n
      in ((seed0, seed1) # rest, p3))"

definition new_SemiHonestOtSender :: "env \<Rightarrow> nat \<Rightarrow> book_row list \<Rightarrow> ot_sender \<times> nat" where
  "new_SemiHonestOtSender E pos books =
     (let secrets = map (\<lambda>b. from_hex (secret_key b)) books;
          b = choice_bits (length books);
          (seeds, pos') = draw_seeds (random_tape E) pos b
      in (\<lparr>bookSecrets = secrets, choiceBitCount = b, currentRound = 0, roundSeeds = seeds\<rparr>,
          pos'))"

text \<open>
  \<open>(i >> j) & 1\<close>: JavaScript takes \<open>i\<close> as a signed 32-bit integer, shifts it
  arithmetically by \<open>j\<close> modulo 32 and masks the lowest bit.
\<close>

definition choiceBit :: "nat \<Rightarrow> nat \<Rightarrow> 32 word" where
  "choiceBit i j = signed_drop_bit (j mod 32) (word_of_nat i) AND 1"

text \<open>
  The loop over \<open>k\<close>: byte \<open>k\<close> of the master key is replaced by its exclusive-or with
  byte \<open>k\<close> of the seed, where both bytes exist.
\<close>

definition xor_seed :: "bytes \<Rightarrow> bytes \<Rightarrow> bytes" where
  "xor_seed masterKey seed =
     fold (\<lambda>k mk. if k < length mk \<and> k < length seed then mk[k := mk ! k XOR seed ! k] else mk)
       [0..<32] masterKey"

text \<open>The loop over \<open>j\<close>, from \<open>Buffer.alloc(32)\<close>.\<close>

definition masterKeyFor :: "ot_sender \<Rightarrow> nat \<Rightarrow> bytes" where
  "masterKeyFor s i =
     fold (\<lambda>j mk. case nth_opt (roundSeeds s) j of
                     None \<Rightarrow> mk
                   | Some (seed0, seed1) \<Rightarrow>
                       xor_seed mk (if choiceBit i j = 0 then seed0 else seed1))
       [0..<choiceBitCount s] (replicate 32 0)"

text \<open>
  The loop over \<open>i\<close>. Every element of \<open>bookSecrets\<close> is a Buffer, which is never falsy,
  so the \<open>continue\<close> is never taken. An exception of the cipher leaves the loop.
\<close>

fun encryptSecrets ::
  "env \<Rightarrow> ot_sender \<Rightarrow> nat \<Rightarrow> bytes list \<Rightarrow> nat \<Rightarrow> (exn + string list) \<times> nat" where
  "encryptSecrets E s i [] pos = (Inr [], pos)"
| "encryptSecrets E s i (bookSecret # rest) pos =
     (case aesGcmEncrypt E pos (masterKeyFor s i) bookSecret of
        (Inl e, pos') \<Rightarrow> (Inl e, pos')
      | (Inr encryptedSecret, pos') \<Rightarrow>
          (case encryptSecrets E s (Suc i) rest pos' of
             (Inl e, pos'') \<Rightarrow> (Inl e, pos'')
           | (Inr out, pos'') \<Rightarrow> (Inr (to_hex encryptedSecret # out), pos'')))"

definition sendFinalSecrets :: "env \<Rightarrow> ot_sender \<Rightarrow> nat \<Rightarrow> effect list \<times> nat" where
  "sendFinalSecrets E s pos =
     (case encryptSecrets E s 0 (bookSecrets s) pos of
        (Inl e, pos') \<Rightarrow> ([Uncaught e], pos')
      | (Inr finalEncryptedSecrets, pos') \<Rightarrow> ([Send (OT_DELIVER finalEncryptedSecrets)], pos'))"

definition start :: "env \<Rightarrow> ot_sender \<Rightarrow> nat \<Rightarrow> effect list \<times> nat" where
  "start E s pos =
     (if choiceBitCount s = 0 then sendFinalSecrets E s pos
      else ([Send (OT_ROUND_START 0)], pos))"

text \<open>
  The body of the \<open>try\<close> of \<open>processRoundResponse\<close> up to the challenge: the two key pairs,
  the two shared secrets and the two encrypted seeds, or the exception that is caught.
\<close>

definition round_challenge ::
  "env \<Rightarrow> nat \<Rightarrow> int \<Rightarrow> string \<Rightarrow> bytes \<times> bytes \<Rightarrow> (exn + server_msg) \<times> nat" where
  "round_challenge E pos roundNo clientPublicKeyHex seeds =
     (let clientPublicKey = from_hex clientPublicKeyHex;
          (serverKeyPair0, p1) = generateServerOtKeyPair E pos;
          (serverKeyPair1, p2) = generateServerOtKeyPair E p1
      in case deriveServerSharedSecret E (fst serverKeyPair0) clientPublicKey of
           Inl e \<Rightarrow> (Inl e, p2)
         | Inr sharedSecret0 \<Rightarrow>
        (case deriveServerSharedSecret E (fst serverKeyPair1) clientPublicKey of
           Inl e \<Rightarrow> (Inl e, p2)
         | Inr sharedSecret1 \<Rightarrow>
        (case aesGcmEncrypt E p2 sharedSecret0 (fst seeds) of
           (Inl e, p3) \<Rightarrow> (Inl e, p3)
         | (Inr encryptedSeed0, p3) \<Rightarrow>
        (case aesGcmEncrypt E p3 sharedSecret1 (snd seeds) of
           (Inl e, p4) \<Rightarrow> (Inl e, p4)
         | (Inr encryptedSeed1, p4) \<Rightarrow>
             (Inr (OT_ROUND_CHALLENGE roundNo
                     (to_hex (snd serverKeyPair0)) (to_hex (snd serverKeyPair1))
                     (to_hex encryptedSeed0) (to_hex encryptedSeed1)), p4)))))"

definition processRoundResponse ::
  "env \<Rightarrow> ot_sender \<Rightarrow> nat \<Rightarrow> int \<Rightarrow> string \<Rightarrow> ot_sender \<times> nat \<times> effect list" where
  "processRoundResponse E s pos roundNo clientPublicKeyHex =
     (if roundNo \<noteq> int (currentRound s) then (s, pos, [Close 1011 ''[OT] round mismatch.''])
      else case js_index (roundSeeds s) roundNo of
        None \<Rightarrow>
          (s, pos, [Close 1011 (''[OT] round '' @ show_nat (nat roundNo) @ '' seed not found.'')])
      | Some seeds \<Rightarrow>
          (case round_challenge E pos roundNo clientPublicKeyHex seeds of
             (Inl e, pos') \<Rightarrow> (s, pos', [Close 1011 ''OT protocol processing failed.''])
           | (Inr challenge, pos') \<Rightarrow>
               (let s' = s\<lparr>currentRound := currentRound s + 1\<rparr> in
                if currentRound s' < choiceBitCount s'
                then (s', pos', [Send challenge, Send (OT_ROUND_START (currentRound s'))])
                else (s', pos', [Send challenge]))))"

section \<open>The session controller (handlePurchaseConnection)\<close>

text \<open>
  \<open>sessionState\<close>, and the attempt counters of the polling intervals that are running.
\<close>

record session =
  userId :: string
  purchase :: "purchase_row option"
  otSender :: "ot_sender option"
  books :: "book_row list"
  intervals :: "nat list"

definition new_session :: session where
  "new_session = \<lparr>userId = [], purchase = None, otSender = None, books = [], intervals = []\<rparr>"

type_synonym state = "world \<times> session"

text \<open>
  \<open>handleInitLogic\<close> returns \<open>true\<close>, \<open>false\<close>, or the (undefined) result of
  \<open>ws.close\<close>, which its callers take as falsy.
\<close>

datatype init_result = InitTrue | InitFalse | InitClosed

definition handleInitLogic :: "string \<Rightarrow> state \<Rightarrow> init_result \<times> session \<times> effect list" where
  "handleInitLogic purchaseId st =
     (let (w, ss) = st in
      case select_purchase purchaseId (userId ss) (purchases w) of
        [] \<Rightarrow> (InitClosed, ss, [Close 1011 ''purchase record not found.''])
      | p # rest \<Rightarrow>
          if status p = Paid then (InitTrue, ss\<lparr>purchase := Some p\<rparr>, [Send ZKP_READY])
          else if status p \<noteq> Pending
          then (InitClosed, ss,
                [Close 1011 (''invalid purchase status: '' @ status_text (status p))])
          else (InitFalse, ss, []))"

definition handle_INIT :: "env \<Rightarrow> string \<Rightarrow> state \<Rightarrow> string \<Rightarrow> state \<times> effect list" where
  "handle_INIT E purchaseId st token =
     (let (w, ss) = st in
      case verifyJwt E token of
        JwtThrows \<Rightarrow> (st, [Close 1011 ''authentication failed.''])
      | JwtPayload None \<Rightarrow> (st, [Close 1011 ''invalid token.''])
      | JwtPayload (Some sub) \<Rightarrow>
          (let (success, ss', fx) = handleInitLogic purchaseId (w, ss\<lparr>userId := sub\<rparr>) in
           if success = InitTrue then ((w, ss'), fx)
           else ((w, ss'\<lparr>intervals := intervals ss' @ [0]\<rparr>), fx)))"

text \<open>One firing of the polling interval number \<open>i\<close> (\<open>maxAttempts\<close> is 10).\<close>

definition interval_tick :: "string \<Rightarrow> state \<Rightarrow> nat \<Rightarrow> state \<times> effect list" where
  "interval_tick purchaseId st i =
     (let (w, ss) = st in
      case nth_opt (intervals ss) i of
        None \<Rightarrow> (st, [])
      | Some n \<Rightarrow>
          (let attempts = n + 1;
               (pollSuccess, ss', fx) = handleInitLogic purchaseId st
           in if pollSuccess = InitTrue \<or> 10 \<le> attempts
              then ((w, ss'\<lparr>intervals := take i (intervals ss') @ drop (Suc i) (intervals ss')\<rparr>),
                    (if pollSuccess = InitTrue then fx
                     else fx @ [Close 1011 ''waiting for payment status update timeout.'']))
              else ((w, ss'\<lparr>intervals := (intervals ss')[i := attempts]\<rparr>), fx)))"

definition handle_ZKP_PROVE ::
  "env \<Rightarrow> string \<Rightarrow> state \<Rightarrow> string \<Rightarrow> string list \<Rightarrow> state \<times> effect list" where
  "handle_ZKP_PROVE E purchaseId st proof publicSignals =
     (let (w, ss) = st in
      case purchase ss of
        None \<Rightarrow> (st, [Uncaught TypeError])
      | Some p \<Rightarrow>
          if nth_opt publicSignals 2 \<noteq> Some (commitment p)
          then (st, [Close 1011 ''commitment mismatch.''])
          else (case groth16_verify E publicSignals proof of
             None \<Rightarrow> (st, [Groth16Verify publicSignals proof, Uncaught VerifierFailure])
           | Some False \<Rightarrow>
               (st, [Groth16Verify publicSignals proof, Close 1011 ''ZKP verification failed.''])
           | Some True \<Rightarrow>
               (case update_verified (nth_opt publicSignals 0) purchaseId (purchases w) of
                  Inl UniqueViolation \<Rightarrow>
                    (st, [Groth16Verify publicSignals proof, Close 1011 ''proof has been used.''])
                | Inl OtherDbError \<Rightarrow>
                    (st, [Groth16Verify publicSignals proof,
                          Close 1011 ''database final update error.''])
                | Inr (rowCount, tbl) \<Rightarrow>
                    if rowCount = 0
                    then ((w\<lparr>purchases := tbl\<rparr>, ss),
                          [Groth16Verify publicSignals proof,
                           Close 1011 ''purchase record has been verified or used.''])
                    else (let rows = select_books (catalog w);
                              (sender, pos') = new_SemiHonestOtSender E (rng_pos w) rows
                          in ((w\<lparr>purchases := tbl, rng_pos := pos'\<rparr>,
                               ss\<lparr>books := rows, otSender := Some sender\<rparr>),
                              [Groth16Verify publicSignals proof,
                               Send (OT_START (length rows))])))))"

definition handle_REQUEST_SIGNED_URL :: "env \<Rightarrow> state \<Rightarrow> int \<Rightarrow> state \<times> effect list" where
  "handle_REQUEST_SIGNED_URL E st bookIndex =
     (case js_index (books (snd st)) bookIndex of
        None \<Rightarrow> (st, [Close 1011 ''invalid book index.''])
      | Some book \<Rightarrow>
          (case R2_BUCKET_NAME E of
             None \<Rightarrow> (st, [Close 1011 ''server configuration error.''])
           | Some bucketName \<Rightarrow>
               if bucketName = [] then (st, [Close 1011 ''server configuration error.''])
               else (case getSignedUrl E bucketName (file_key book) of
                  None \<Rightarrow> (st, [Close 1011 ''failed to get download link.''])
                | Some signedUrl \<Rightarrow> (st, [Send (SIGNED_URL signedUrl)]))))"

definition handle_DOWNLOAD_READY :: "string \<Rightarrow> state \<Rightarrow> state \<times> effect list" where
  "handle_DOWNLOAD_READY purchaseId st =
     (let (w, ss) = st;
          (rowCount, tbl) = update_completed purchaseId (purchases w)
      in ((w\<lparr>purchases := tbl\<rparr>, ss), [Close 1000 ''purchase process completed.'']))"

text \<open>The \<open>switch\<close> on the message type; an unknown type matches no case.\<close>

fun handleMessage :: "env \<Rightarrow> string \<Rightarrow> state \<Rightarrow> client_msg \<Rightarrow> state \<times> effect list" where
  "handleMessage E purchaseId st (INIT token) = handle_INIT E purchaseId st token"
| "handleMessage E purchaseId st (ZKP_PROVE proof publicSignals) =
     handle_ZKP_PROVE E purchaseId st proof publicSignals"
| "handleMessage E purchaseId (w, ss) OT_ACK_START =
     (case otSender ss of
        None \<Rightarrow> ((w, ss), [])
      | Some sender \<Rightarrow>
          (let (fx, pos') = start E sender (rng_pos w) in ((w\<lparr>rng_pos := pos'\<rparr>, ss), fx)))"
| "handleMessage E purchaseId (w, ss) (OT_ROUND_RESPONSE roundNo clientPublicKey) =
     (case otSender ss of
        None \<Rightarrow> ((w, ss), [])
      | Some sender \<Rightarrow>
          (let (sender', pos', fx) =
                 processRoundResponse E sender (rng_pos w) roundNo clientPublicKey
           in ((w\<lparr>rng_pos := pos'\<rparr>, ss\<lparr>otSender := Some sender'\<rparr>), fx)))"
| "handleMessage E purchaseId (w, ss) OT_ROUNDS_COMPLETE =
     (case otSender ss of
        None \<Rightarrow> ((w, ss), [])
      | Some sender \<Rightarrow>
          (let (fx, pos') = sendFinalSecrets E sender (rng_pos w)
           in ((w\<lparr>rng_pos := pos'\<rparr>, ss), fx)))"
| "handleMessage E purchaseId st (REQUEST_SIGNED_URL bookIndex) =
     handle_REQUEST_SIGNED_URL E st bookIndex"
| "handleMessage E purchaseId st DOWNLOAD_READY = handle_DOWNLOAD_READY purchaseId st"
| "handleMessage E purchaseId st (OtherMessage t) = (st, [])"

text \<open>
  What can happen to a session: a message of the peer, a firing of a polling interval, and
  the payment webhook (routes/webhook.ts, on \<open>payment_intent.succeeded\<close>), which touches
  only the store. Each handler runs to its end before the next event. The session is over
  at the first close or uncaught exception: later events are not delivered to it.
\<close>

datatype event = Message client_msg | IntervalTick nat | StripeWebhook string

fun step :: "env \<Rightarrow> string \<Rightarrow> state \<Rightarrow> event \<Rightarrow> state \<times> effect list" where
  "step E purchaseId st (Message m) = handleMessage E purchaseId st m"
| "step E purchaseId st (IntervalTick i) = interval_tick purchaseId st i"
| "step E purchaseId (w, ss) (StripeWebhook paymentIntentId) =
     ((w\<lparr>purchases := snd (update_paid paymentIntentId (purchases w))\<rparr>, ss), [])"

fun run :: "env \<Rightarrow> string \<Rightarrow> state \<Rightarrow> event list \<Rightarrow> state \<times> effect list" where
  "run E purchaseId st [] = (st, [])"
| "run E purchaseId st (ev # evs) =
     (case step E purchaseId st ev of
        (st', fx) \<Rightarrow>
          if list_ex is_final fx then (st', fx)
          else (case run E purchaseId st' evs of (st'', fx') \<Rightarrow> (st'', fx @ fx')))"

section \<open>Predicates of the statements\<close>

fun is_verify :: "effect \<Rightarrow> bool" where
  "is_verify (Groth16Verify sigs zkp) = True"
| "is_verify _ = False"



text \<open>Every seed of every round has 32 bytes.\<close>

definition seeds_ok :: "(bytes \<times> bytes) list \<Rightarrow> bool" where
  "seeds_ok seeds = list_all (\<lambda>sd. length (fst sd) = 32 \<and> length (snd sd) = 32) seeds"

text \<open>
  What every sender of a session satisfies: the round counter never passes the number of
  rounds, and there is one seed pair per round.
\<close>

definition sender_inv :: "ot_sender \<Rightarrow> bool" where
  "sender_inv s = (currentRound s \<le> choiceBitCount s \<and> length (roundSeeds s) = choiceBitCount s)"

definition session_inv :: "session \<Rightarrow> bool" where
  "session_inv ss = (case otSender ss of None \<Rightarrow> True | Some s \<Rightarrow> sender_inv s)"

section \<open>A small environment for concrete runs\<close>

text \<open>
  Stand-ins for the collaborators, simple enough to compute with: the tape counts upwards,
  the cipher masks every byte with the first key byte and tags with the first nonce byte.
\<close>

definition toy_gcm :: "bytes \<Rightarrow> bytes \<Rightarrow> bytes \<Rightarrow> (bytes \<times> bytes) option" where
  "toy_gcm key iv pt =
     (if length key = 32 \<and> length iv = 12
      then Some (map (\<lambda>b. b XOR hd key) pt, replicate 16 (hd iv)) else None)"

definition toy_gcm_open :: "bytes \<Rightarrow> bytes \<Rightarrow> bytes \<Rightarrow> bytes \<Rightarrow> bytes option" where
  "toy_gcm_open key iv ct tag =
     (if length key = 32 \<and> length iv = 12 \<and> tag = replicate 16 (hd iv)
      then Some (map (\<lambda>b. b XOR hd key) ct) else None)"

definition toy_env :: env where
  "toy_env =
     \<lparr>random_tape = (\<lambda>n. word_of_nat n),
      p256_randomSecretKey = (\<lambda>pos. ([word_of_nat pos], Suc pos)),
      p256_getPublicKey = (\<lambda>sk. sk),
      p256_getSharedSecret = (\<lambda>sk pk. if pk = [] then None else Some (sk @ pk)),
      sha256 = (\<lambda>m. replicate 32 (hd m)),
      aes_256_gcm = toy_gcm,
      aes_256_gcm_open = toy_gcm_open,
      verifyJwt = (\<lambda>t. if t = ''alice-token'' then JwtPayload (Some ''alice'') else JwtThrows),
      groth16_verify = (\<lambda>sigs prf. Some (prf = ''valid'')),
      R2_BUCKET_NAME = Some ''bucket'',
      getSignedUrl = (\<lambda>bucket k. Some (bucket @ ''/'' @ k))\<rparr>"

text \<open>A catalog of two books, and purchases in the states the examples need.\<close>

definition toy_books :: "book_row list" where
  "toy_books =
     [\<lparr>book_id = 1, file_key = ''k1'', secret_key = ''0a''\<rparr>,
      \<lparr>book_id = 2, file_key = ''k2'', secret_key = ''0b''\<rparr>]"

definition toy_purchase :: purchase_row where
  "toy_purchase =
     \<lparr>purchase_id = ''p1'', user_id = ''alice'', status = Paid, commitment = ''C'',
      nullifier_hash = None, stripe_payment_intent_id = ''pi_1''\<rparr>"

definition toy_pending :: purchase_row where
  "toy_pending =
     \<lparr>purchase_id = ''p2'', user_id = ''bob'', status = Pending, commitment = ''D'',
      nullifier_hash = None, stripe_payment_intent_id = ''pi_2''\<rparr>"


definition toy_world :: world where
  "toy_world = \<lparr>purchases = [toy_purchase], catalog = toy_books, rng_pos = 0\<rparr>"



text \<open>
  A session that authenticates, proves and asks for the final secrets at once, and the
  states it passes through.
\<close>

definition toy_events :: "event list" where
  "toy_events =
     [Message (INIT ''alice-token''),
      Message (ZKP_PROVE ''valid'' [''42'', ''R'', ''C'']),
      Message OT_ROUNDS_COMPLETE]"

definition toy_sender2 :: ot_sender where
  "toy_sender2 = fst (new_SemiHonestOtSender toy_env 0 toy_books)"

definition toy_session1 :: session where
  "toy_session1 = new_session\<lparr>userId := ''alice'', purchase := Some toy_purchase\<rparr>"

definition toy_world2 :: world where
  "toy_world2 =
     \<lparr>purchases = [toy_purchase\<lparr>status := Verified, nullifier_hash := Some ''42''\<rparr>],
      catalog = toy_books, rng_pos = 64\<rparr>"

definition toy_session2 :: session where
  "toy_session2 = toy_session1\<lparr>books := toy_books, otSender := Some toy_sender2\<rparr>"

section \<open>Crypto primitives: the layout of an encrypted blob\<close>

lemma aesGcmEncrypt_ok:
  assumes "gcm_contract E" and "length key = 32"
  shows "\<exists>ct tag. aes_256_gcm E key (map (random_tape E) [pos..<pos + 12]) pt = Some (ct, tag)
           \<and> length ct = length pt \<and> length tag = 16
           \<and> aesGcmEncrypt E pos key pt
               = (Inr (map (random_tape E) [pos..<pos + 12] @ ct @ tag), pos + 12)"
proof -
  let ?iv = "map (random_tape E) [pos..<pos + 12]"
  have "length ?iv = 12" by simp
  with assms obtain ct tag where
    c: "aes_256_gcm E key ?iv pt = Some (ct, tag)" "length ct = length pt" "length tag = 16"
    unfolding gcm_contract_def by blast
  then show ?thesis
    by (simp add: aesGcmEncrypt_def randomBytes_def)
qed

lemma toy_gcm_contract: "gcm_contract toy_env"
  by (simp add: gcm_contract_def toy_env_def toy_gcm_def)

lemma toy_gcm_roundtrip: "gcm_roundtrip toy_env"
  by (auto simp add: gcm_roundtrip_def toy_env_def toy_gcm_def toy_gcm_open_def comp_def
      xor.assoc split: if_splits)

text \<open>
  C9. For every key and plaintext, \<open>aesGcmEncrypt\<close> draws the next 12 bytes of the
  random tape as the nonce and moves the tape 12 bytes on, so that they are never handed
  out again; what it returns, unless the cipher throws, is exactly nonce, ciphertext, tag,
  with the nonce as its first 12 bytes. With an AES-256 key (32 bytes, the only length the
  cipher takes) it does return, the tag has 16 bytes and the blob
  \<open>12 + length plaintext + 16\<close>.
\<close>

theorem C9_aesGcmEncrypt_layout:
  "(\<exists>iv. iv = map (random_tape E) [pos..<pos + 12] \<and> length iv = 12
        \<and> snd (aesGcmEncrypt E pos key plaintext) = pos + 12
        \<and> (case aes_256_gcm E key iv plaintext of
             None \<Rightarrow> fst (aesGcmEncrypt E pos key plaintext) = Inl CipherFailure
           | Some (ct, tag) \<Rightarrow>
               fst (aesGcmEncrypt E pos key plaintext) = Inr (iv @ ct @ tag)
               \<and> take 12 (iv @ ct @ tag) = iv
               \<and> length (iv @ ct @ tag) = 12 + length ct + length tag))
   \<and> (gcm_contract E \<and> length key = 32 \<longrightarrow>
        (\<exists>iv ct tag.
           iv = map (random_tape E) [pos..<pos + 12]
         \<and> aes_256_gcm E key iv plaintext = Some (ct, tag)
         \<and> aesGcmEncrypt E pos key plaintext = (Inr (iv @ ct @ tag), pos + 12)
         \<and> length iv = 12 \<and> length ct = length plaintext \<and> length tag = 16
         \<and> length (iv @ ct @ tag) = 12 + length plaintext + 16
         \<and> take 12 (iv @ ct @ tag) = iv))"
proof -
  have 1: "\<exists>iv. iv = map (random_tape E) [pos..<pos + 12] \<and> length iv = 12
        \<and> snd (aesGcmEncrypt E pos key plaintext) = pos + 12
        \<and> (case aes_256_gcm E key iv plaintext of
             None \<Rightarrow> fst (aesGcmEncrypt E pos key plaintext) = Inl CipherFailure
           | Some (ct, tag) \<Rightarrow>
               fst (aesGcmEncrypt E pos key plaintext) = Inr (iv @ ct @ tag)
               \<and> take 12 (iv @ ct @ tag) = iv
               \<and> length (iv @ ct @ tag) = 12 + length ct + length tag)"
    by (simp add: aesGcmEncrypt_def randomBytes_def split: option.splits)
  have 2: "\<exists>iv ct tag.
           iv = map (random_tape E) [pos..<pos + 12]
         \<and> aes_256_gcm E key iv plaintext = Some (ct, tag)
         \<and> aesGcmEncrypt E pos key plaintext = (Inr (iv @ ct @ tag), pos + 12)
         \<and> length iv = 12 \<and> length ct = length plaintext \<and> length tag = 16
         \<and> length (iv @ ct @ tag) = 12 + length plaintext + 16
         \<and> take 12 (iv @ ct @ tag) = iv"
    if "gcm_contract E" "length key = 32"
    using aesGcmEncrypt_ok [OF that, of pos plaintext] by auto
  from 1 2 show ?thesis by blast
qed

theorem C9_aesGcmEncrypt_layout_witness:
  "aesGcmEncrypt toy_env 5 (replicate 32 1) [7, 8]
     = (Inr ([5, 6, 7, 8, 9, 10, 11, 12, 13, 14, 15, 16] @ [6, 9] @ replicate 16 5), 17)"
  using C9_aesGcmEncrypt_layout [of toy_env 5 "replicate 32 1" "[7, 8]"] toy_gcm_contract
  by (simp add: toy_env_def toy_gcm_def upt_rec)

section \<open>The round check of the sender\<close>




section \<open>The proof phase\<close>

text \<open>
  C8. Handling \<open>ZKP_PROVE\<close> calls the proof verifier exactly when the session holds a
  purchase whose stored commitment equals public signal number 2. On a mismatch the
  connection is closed with ``commitment mismatch.'', nothing else happens, and the outcome
  is the same whatever the verifier would have answered.
\<close>

theorem C8_commitment_before_verifier:
  "(list_ex is_verify (snd (handleMessage E purchaseId (w, ss) (ZKP_PROVE zkp publicSignals)))
      = (case purchase ss of
           None \<Rightarrow> False
         | Some p \<Rightarrow> nth_opt publicSignals 2 = Some (commitment p)))
   \<and> (purchase ss = Some p \<and> nth_opt publicSignals 2 \<noteq> Some (commitment p) \<longrightarrow>
        handleMessage (E\<lparr>groth16_verify := v\<rparr>) purchaseId (w, ss) (ZKP_PROVE zkp publicSignals)
          = ((w, ss), [Close 1011 ''commitment mismatch.'']))"
  by (auto simp add: handle_ZKP_PROVE_def Let_def
      split: option.splits bool.splits sum.splits db_error.splits prod.splits)

theorem C8_commitment_before_verifier_witness:
  "handleMessage toy_env ''p1'' (toy_world, new_session\<lparr>purchase := Some toy_purchase\<rparr>)
     (ZKP_PROVE ''valid'' [''42'', ''R'', ''X''])
     = ((toy_world, new_session\<lparr>purchase := Some toy_purchase\<rparr>),
        [Close 1011 ''commitment mismatch.''])
   \<and> list_ex is_verify (snd (handleMessage toy_env ''p1''
        (toy_world, new_session\<lparr>purchase := Some toy_purchase\<rparr>)
        (ZKP_PROVE ''valid'' [''42'', ''R'', ''C''])))"
  using C8_commitment_before_verifier [where E = toy_env and purchaseId = "''p1''"
      and w = toy_world and ss = "new_session\<lparr>purchase := Some toy_purchase\<rparr>"
      and zkp = "''valid''" and publicSignals = "[''42'', ''R'', ''X'']"
      and p = toy_purchase and v = "groth16_verify toy_env"]
    C8_commitment_before_verifier [where E = toy_env and purchaseId = "''p1''"
      and w = toy_world and ss = "new_session\<lparr>purchase := Some toy_purchase\<rparr>"
      and zkp = "''valid''" and publicSignals = "[''42'', ''R'', ''C'']"
      and p = toy_purchase and v = "groth16_verify toy_env"]
  by (simp add: toy_purchase_def nth_opt_def)

section \<open>The download phase\<close>




text \<open>
  C3. The update of \<open>DOWNLOAD_READY\<close> has no condition on the status: on a session that
  never authenticated, it moves a purchase that is still pending to completed. The two
  other updates do carry the condition: on a row whose status is not their predecessor
  state they change nothing.
\<close>

theorem C3_completed_without_condition:
  "handleMessage E ''p2''
     (\<lparr>purchases = [toy_purchase, toy_pending], catalog = [], rng_pos = 0\<rparr>, new_session)
     DOWNLOAD_READY
   = ((\<lparr>purchases = [toy_purchase, toy_pending\<lparr>status := Completed\<rparr>], catalog = [],
        rng_pos = 0\<rparr>, new_session),
      [Close 1000 ''purchase process completed.''])
   \<and> status toy_pending = Pending
   \<and> update_completed ''p2'' [toy_pending] = (1, [toy_pending\<lparr>status := Completed\<rparr>])
   \<and> update_verified (Some ''42'') ''p2'' [toy_pending] = Inr (0, [toy_pending])
   \<and> update_paid ''pi_1'' [toy_purchase] = (0, [toy_purchase])"
  by (simp add: handle_DOWNLOAD_READY_def update_completed_def update_verified_def
      update_paid_def nullifier_conflict_def sql_update_def toy_purchase_def toy_pending_def)

section \<open>The replay guard\<close>







lemma world_purchases_same: "w\<lparr>purchases := purchases w\<rparr> = w"
  by simp







section \<open>The sender: rounds, seeds and master keys\<close>

lemma choice_bits_ceillog2: "choice_bits n = ceillog2 n"
  by (simp add: choice_bits_def)

lemma draw_seeds_facts:
  "length (fst (draw_seeds tape pos n)) = n
   \<and> snd (draw_seeds tape pos n) = pos + 64 * n
   \<and> seeds_ok (fst (draw_seeds tape pos n))"
  by (induction n arbitrary: pos)
    (simp_all add: seeds_ok_def randomBytes_def split_beta Let_def)

lemma new_sender_facts:
  assumes "new_SemiHonestOtSender E pos rows = (s, pos')"
  shows "bookSecrets s = map (\<lambda>b. from_hex (secret_key b)) rows"
    and "choiceBitCount s = choice_bits (length rows)"
    and "currentRound s = 0"
    and "length (roundSeeds s) = choiceBitCount s"
    and "seeds_ok (roundSeeds s)"
    and "pos' = pos + 64 * choiceBitCount s"
  using assms draw_seeds_facts [of "random_tape E" pos "choice_bits (length rows)"]
  by (auto simp add: new_SemiHonestOtSender_def Let_def split_beta)

lemma xor_fold_nth:
  "length (fold (\<lambda>k mk. if k < length mk \<and> k < length seed
                         then mk[k := mk ! k XOR seed ! k] else mk) [0..<n] mk) = length mk
   \<and> (\<forall>i<length mk.
        fold (\<lambda>k mk. if k < length mk \<and> k < length seed
                      then mk[k := mk ! k XOR seed ! k] else mk) [0..<n] mk ! i
        = (if i < n \<and> i < length seed then mk ! i XOR seed ! i else mk ! i))"
  by (induction n) (auto simp add: nth_list_update)

lemma length_xor_seed: "length (xor_seed mk seed) = length mk"
  using xor_fold_nth [of seed 32 mk] by (simp add: xor_seed_def)


lemma fold_keeps_length:
  assumes "\<And>x acc. length (f x acc) = length acc"
  shows "length (fold f xs init) = length init"
  by (induction xs arbitrary: init) (simp_all add: assms)

lemma length_masterKeyFor: "length (masterKeyFor s i) = 32"
proof -
  have "length (masterKeyFor s i) = length (replicate 32 (0 :: byte))"
    unfolding masterKeyFor_def
    by (rule fold_keeps_length) (simp add: length_xor_seed split: option.splits prod.splits)
  then show ?thesis by simp
qed





lemma masterKeyFor_no_rounds: "choiceBitCount s = 0 \<Longrightarrow> masterKeyFor s i = replicate 32 0"
  by (simp add: masterKeyFor_def)

lemma encryptSecrets_ok:
  assumes "gcm_contract E"
  shows "\<exists>out. encryptSecrets E s i secrets pos = (Inr out, pos + 12 * length secrets)
           \<and> length out = length secrets
           \<and> (\<forall>k<length secrets.
                \<exists>ct tag.
                  aes_256_gcm E (masterKeyFor s (i + k))
                    (map (random_tape E) [pos + 12 * k..<pos + 12 * k + 12]) (secrets ! k)
                    = Some (ct, tag)
                \<and> length ct = length (secrets ! k) \<and> length tag = 16
                \<and> out ! k = to_hex (map (random_tape E) [pos + 12 * k..<pos + 12 * k + 12]
                                      @ ct @ tag))"
proof (induction secrets arbitrary: i pos)
  case Nil
  then show ?case by simp
next
  case (Cons x xs)
  from aesGcmEncrypt_ok [OF assms length_masterKeyFor, of s i pos x]
  obtain ct tag where
    e: "aes_256_gcm E (masterKeyFor s i) (map (random_tape E) [pos..<pos + 12]) x = Some (ct, tag)"
      "length ct = length x" "length tag = 16"
      "aesGcmEncrypt E pos (masterKeyFor s i) x
         = (Inr (map (random_tape E) [pos..<pos + 12] @ ct @ tag), pos + 12)"
    by blast
  from Cons.IH [of "Suc i" "pos + 12"] obtain out where
    o: "encryptSecrets E s (Suc i) xs (pos + 12) = (Inr out, pos + 12 + 12 * length xs)"
      "length out = length xs"
      "\<forall>k<length xs.
         \<exists>ct tag.
           aes_256_gcm E (masterKeyFor s (Suc i + k))
             (map (random_tape E) [pos + 12 + 12 * k..<pos + 12 + 12 * k + 12]) (xs ! k)
             = Some (ct, tag)
         \<and> length ct = length (xs ! k) \<and> length tag = 16
         \<and> out ! k = to_hex (map (random_tape E) [pos + 12 + 12 * k..<pos + 12 + 12 * k + 12]
                               @ ct @ tag)"
    by blast
  let ?out = "to_hex (map (random_tape E) [pos..<pos + 12] @ ct @ tag) # out"
  have 1: "encryptSecrets E s i (x # xs) pos = (Inr ?out, pos + 12 * length (x # xs))"
    using e(4) o(1) by simp
  have 2: "length ?out = length (x # xs)" using o(2) by simp
  have 3: "\<exists>ct tag.
             aes_256_gcm E (masterKeyFor s (i + k))
               (map (random_tape E) [pos + 12 * k..<pos + 12 * k + 12]) ((x # xs) ! k)
               = Some (ct, tag)
           \<and> length ct = length ((x # xs) ! k) \<and> length tag = 16
           \<and> ?out ! k = to_hex (map (random_tape E) [pos + 12 * k..<pos + 12 * k + 12]
                                  @ ct @ tag)"
    if "k < length (x # xs)" for k
  proof (cases k)
    case 0
    with e show ?thesis by simp
  next
    case (Suc m)
    with that have "m < length xs" by simp
    with o(3) Suc show ?thesis by (simp add: add.assoc add.left_commute)
  qed
  from 1 2 3 show ?case by blast
qed

lemma sendFinalSecrets_ok:
  assumes "gcm_contract E"
  shows "\<exists>cs. sendFinalSecrets E s pos
                 = ([Send (OT_DELIVER cs)], pos + 12 * length (bookSecrets s))
           \<and> length cs = length (bookSecrets s)
           \<and> (\<forall>k<length (bookSecrets s).
                \<exists>ct tag.
                  aes_256_gcm E (masterKeyFor s k)
                    (map (random_tape E) [pos + 12 * k..<pos + 12 * k + 12]) (bookSecrets s ! k)
                    = Some (ct, tag)
                \<and> length ct = length (bookSecrets s ! k) \<and> length tag = 16
                \<and> cs ! k = to_hex (map (random_tape E) [pos + 12 * k..<pos + 12 * k + 12]
                                     @ ct @ tag))"
  using encryptSecrets_ok [OF assms, of s 0 "bookSecrets s" pos]
  by (auto simp add: sendFinalSecrets_def)







lemma aead_decrypt_blob:
  assumes "gcm_roundtrip E" and "aes_256_gcm E key iv pt = Some (ct, tag)"
    and "length iv = 12" and "length tag = 16"
  shows "aead_decrypt E key (iv @ ct @ tag) = Some pt"
  using assms by (simp add: aead_decrypt_def gcm_roundtrip_def)

text \<open>
  C10. With at most one row there are no rounds and no seeds, so the master key of every
  index is 32 zero bytes. With no row the array sent is empty; with one row finalization
  (and \<open>start\<close>) sends the row's secret key encrypted by AES-256-GCM under that all-zero
  key, not the key itself, and decrypting the delivered blob with the all-zero key returns
  the secret key.
\<close>

theorem C10_zero_master_key:
  assumes "gcm_contract E" and "gcm_roundtrip E" and "length rows \<le> 1"
    and "new_SemiHonestOtSender E pos rows = (s, pos')"
  shows "choiceBitCount s = 0 \<and> roundSeeds s = [] \<and> masterKeyFor s i = replicate 32 0
       \<and> (rows = [] \<longrightarrow> sendFinalSecrets E s p = ([Send (OT_DELIVER [])], p))
       \<and> (\<forall>b. rows = [b] \<longrightarrow>
            (\<exists>iv ct tag.
               iv = map (random_tape E) [p..<p + 12]
             \<and> aes_256_gcm E (replicate 32 0) iv (from_hex (secret_key b)) = Some (ct, tag)
             \<and> sendFinalSecrets E s p = ([Send (OT_DELIVER [to_hex (iv @ ct @ tag)])], p + 12)
             \<and> start E s p = ([Send (OT_DELIVER [to_hex (iv @ ct @ tag)])], p + 12)
             \<and> aead_decrypt E (replicate 32 0) (iv @ ct @ tag)
                 = Some (from_hex (secret_key b))))"
proof -
  note f = new_sender_facts [OF assms(4)]
  have z: "choiceBitCount s = 0" using f(2) assms(3) by (simp add: choice_bits_def)
  then have key: "masterKeyFor s k = replicate 32 0" for k
    by (rule masterKeyFor_no_rounds)
  have e: "sendFinalSecrets E s p = ([Send (OT_DELIVER [])], p)" if "rows = []"
    using that by (simp add: sendFinalSecrets_def f(1))
  have one: "\<exists>iv ct tag.
               iv = map (random_tape E) [p..<p + 12]
             \<and> aes_256_gcm E (replicate 32 0) iv (from_hex (secret_key b)) = Some (ct, tag)
             \<and> sendFinalSecrets E s p = ([Send (OT_DELIVER [to_hex (iv @ ct @ tag)])], p + 12)
             \<and> start E s p = ([Send (OT_DELIVER [to_hex (iv @ ct @ tag)])], p + 12)
             \<and> aead_decrypt E (replicate 32 0) (iv @ ct @ tag)
                 = Some (from_hex (secret_key b))"
    if rows: "rows = [b]" for b
  proof -
    from sendFinalSecrets_ok [OF assms(1), of s p] obtain cs where
      cs: "sendFinalSecrets E s p = ([Send (OT_DELIVER cs)], p + 12 * length (bookSecrets s))"
        "length cs = length (bookSecrets s)"
        "\<forall>k<length (bookSecrets s).
           \<exists>ct tag.
             aes_256_gcm E (masterKeyFor s k)
               (map (random_tape E) [p + 12 * k..<p + 12 * k + 12]) (bookSecrets s ! k)
               = Some (ct, tag)
           \<and> length ct = length (bookSecrets s ! k) \<and> length tag = 16
           \<and> cs ! k = to_hex (map (random_tape E) [p + 12 * k..<p + 12 * k + 12] @ ct @ tag)"
      by blast
    from cs(3) rows obtain ct tag where
      c: "aes_256_gcm E (replicate 32 0) (map (random_tape E) [p..<p + 12])
            (from_hex (secret_key b)) = Some (ct, tag)"
        "length tag = 16" "cs ! 0 = to_hex (map (random_tape E) [p..<p + 12] @ ct @ tag)"
      by (auto simp add: f(1) key)
    from cs(2) rows have "cs = [cs ! 0]" by (cases cs) (simp_all add: f(1))
    with cs(1) c(3) rows
    have d: "sendFinalSecrets E s p
               = ([Send (OT_DELIVER [to_hex (map (random_tape E) [p..<p + 12] @ ct @ tag)])],
                  p + 12)"
      by (simp add: f(1))
    have "aead_decrypt E (replicate 32 0) (map (random_tape E) [p..<p + 12] @ ct @ tag)
            = Some (from_hex (secret_key b))"
      using aead_decrypt_blob [OF assms(2) c(1)] c(2) by simp
    with z c(1) d show ?thesis
      by (auto simp add: start_def)
  qed
  from z key e one f(4) show ?thesis
    by auto
qed

theorem C10_zero_master_key_witness:
  "sendFinalSecrets toy_env (fst (new_SemiHonestOtSender toy_env 0 [hd toy_books])) 0
     = ([Send (OT_DELIVER [to_hex ([0, 1, 2, 3, 4, 5, 6, 7, 8, 9, 10, 11] @ [10]
                                    @ replicate 16 0)])], 12)
   \<and> aead_decrypt toy_env (replicate 32 0)
        ([0, 1, 2, 3, 4, 5, 6, 7, 8, 9, 10, 11] @ [10] @ replicate 16 0) = Some [10]"
proof -
  have h: "new_SemiHonestOtSender toy_env 0 [hd toy_books]
             = (fst (new_SemiHonestOtSender toy_env 0 [hd toy_books]),
                snd (new_SemiHonestOtSender toy_env 0 [hd toy_books]))"
    by simp
  have l: "length [hd toy_books] \<le> 1" by simp
  have sk: "from_hex (secret_key (hd toy_books)) = [10]"
    by code_simp
  have tape: "map (random_tape toy_env) [0..<12] = [0, 1, 2, 3, 4, 5, 6, 7, 8, 9, 10, 11]"
    by (simp add: toy_env_def upt_rec)
  have gcm: "aes_256_gcm toy_env = toy_gcm"
    by (simp add: toy_env_def)
  from C10_zero_master_key [OF toy_gcm_contract toy_gcm_roundtrip l h, of 0 0]
  show ?thesis
    by (simp add: sk tape gcm toy_gcm_def)
qed

section \<open>When the final secrets are sent\<close>

lemma processRoundResponse_inv:
  assumes "sender_inv s"
  shows "sender_inv (fst (processRoundResponse E s pos roundNo pk))"
proof (cases "roundNo = int (currentRound s) \<and> currentRound s < length (roundSeeds s)")
  case True
  with assms have "Suc (currentRound s) \<le> choiceBitCount s"
    by (simp add: sender_inv_def)
  with assms True show ?thesis
    by (auto simp add: processRoundResponse_def js_index_def sender_inv_def Let_def
        split: prod.splits sum.splits)
next
  case False
  with assms show ?thesis
    by (auto simp add: processRoundResponse_def js_index_def)
qed

lemma handleInitLogic_otSender:
  "otSender (fst (snd (handleInitLogic purchaseId (w, ss)))) = otSender ss"
  by (simp add: handleInitLogic_def split: list.splits)

lemma handle_INIT_otSender:
  "otSender (snd (fst (handle_INIT E purchaseId (w, ss) token))) = otSender ss"
  using handleInitLogic_otSender [of purchaseId w]
  by (simp add: handle_INIT_def split_beta Let_def split: jwt_result.splits option.splits)

lemma interval_tick_otSender:
  "otSender (snd (fst (interval_tick purchaseId (w, ss) i))) = otSender ss"
  using handleInitLogic_otSender [of purchaseId w ss]
  by (simp add: interval_tick_def split_beta Let_def split: option.splits)

lemma new_sender_inv: "sender_inv (fst (new_SemiHonestOtSender E pos rows))"
  using new_sender_facts(3,4) [OF surjective_pairing, of E pos rows]
  by (simp add: sender_inv_def)

lemma handle_ZKP_PROVE_inv:
  assumes "session_inv ss"
  shows "session_inv (snd (fst (handle_ZKP_PROVE E purchaseId (w, ss) zkp sigs)))"
  using assms new_sender_inv [of E "rng_pos w" "select_books (catalog w)"]
  by (simp add: handle_ZKP_PROVE_def session_inv_def split_beta Let_def
      split: option.splits bool.splits sum.splits db_error.splits)

lemma step_inv:
  assumes "session_inv ss"
  shows "session_inv (snd (fst (step E purchaseId (w, ss) ev)))"
proof (cases ev)
  case (Message m)
  show ?thesis
  proof (cases m)
    case (INIT token)
    with Message assms show ?thesis
      using handle_INIT_otSender [of E purchaseId w ss token] by (simp add: session_inv_def)
  next
    case (ZKP_PROVE zkp sigs)
    with Message assms show ?thesis by (simp add: handle_ZKP_PROVE_inv)
  next
    case OT_ACK_START
    with Message assms show ?thesis
      by (simp add: session_inv_def split_beta split: option.splits)
  next
    case (OT_ROUND_RESPONSE roundNo pk)
    with Message assms show ?thesis
      using processRoundResponse_inv [of _ E "rng_pos w" roundNo pk]
      by (auto simp add: session_inv_def split_beta split: option.splits)
  next
    case OT_ROUNDS_COMPLETE
    with Message assms show ?thesis
      by (simp add: session_inv_def split_beta split: option.splits)
  next
    case (REQUEST_SIGNED_URL i)
    with Message assms show ?thesis
      by (simp add: handle_REQUEST_SIGNED_URL_def split: option.splits)
  next
    case DOWNLOAD_READY
    with Message assms show ?thesis
      by (simp add: handle_DOWNLOAD_READY_def split_beta)
  next
    case (OtherMessage t)
    with Message assms show ?thesis by simp
  qed
next
  case (IntervalTick i)
  with assms show ?thesis
    using interval_tick_otSender [of purchaseId w ss i] by (simp add: session_inv_def)
next
  case (StripeWebhook pi)
  with assms show ?thesis by simp
qed

lemma run_inv:
  assumes "session_inv (snd st)"
  shows "session_inv (snd (fst (run E purchaseId st evs)))"
  using assms
proof (induction evs arbitrary: st)
  case Nil
  then show ?case by simp
next
  case (Cons ev evs)
  obtain w ss where st: "st = (w, ss)" by (cases st)
  obtain st' fx where s: "step E purchaseId st ev = (st', fx)"
    by (cases "step E purchaseId st ev")
  from Cons.prems st s have i: "session_inv (snd st')"
    using step_inv [of ss E purchaseId w ev] by simp
  show ?case
  proof (cases "list_ex is_final fx")
    case True
    with s i show ?thesis by simp
  next
    case False
    with s Cons.IH [OF i] show ?thesis
      by (cases "run E purchaseId st' evs") simp
  qed
qed


lemma handleInitLogic_no_deliver:
  "\<not> list_ex is_deliver (snd (snd (handleInitLogic purchaseId st)))"
  by (simp add: handleInitLogic_def split_beta split: list.splits)

lemma round_challenge_no_deliver:
  "round_challenge E pos roundNo pk seeds = (Inr m, pos') \<Longrightarrow> \<not> is_deliver (Send m)"
  by (auto simp add: round_challenge_def split_beta Let_def split: sum.splits prod.splits)

lemma processRoundResponse_no_deliver:
  "\<not> list_ex is_deliver (snd (snd (processRoundResponse E s pos roundNo pk)))"
  by (auto simp add: processRoundResponse_def Let_def dest: round_challenge_no_deliver
      split: option.splits prod.splits sum.splits)

lemma sendFinalSecrets_delivers:
  "gcm_contract E \<Longrightarrow> list_ex is_deliver (fst (sendFinalSecrets E s pos))"
  using sendFinalSecrets_ok [of E s pos] by auto

lemma step_delivers:
  assumes "gcm_contract E"
  shows "list_ex is_deliver (snd (step E purchaseId (w, ss) ev))
           = (case otSender ss of
                None \<Rightarrow> False
              | Some s \<Rightarrow> ev = Message OT_ROUNDS_COMPLETE
                          \<or> (ev = Message OT_ACK_START \<and> choiceBitCount s = 0))"
proof (cases ev)
  case (Message m)
  show ?thesis
  proof (cases m)
    case (INIT token)
    with Message show ?thesis
      using handleInitLogic_no_deliver [of purchaseId]
      by (simp add: handle_INIT_def split_beta Let_def
          split: jwt_result.splits option.splits)
  next
    case (ZKP_PROVE zkp sigs)
    with Message show ?thesis
      by (simp add: handle_ZKP_PROVE_def split_beta Let_def
          split: option.splits bool.splits sum.splits db_error.splits)
  next
    case OT_ACK_START
    with Message show ?thesis
      using sendFinalSecrets_delivers [OF assms]
      by (simp add: start_def split_beta split: option.splits)
  next
    case (OT_ROUND_RESPONSE roundNo pk)
    with Message show ?thesis
      using processRoundResponse_no_deliver [of E _ "rng_pos w" roundNo pk]
      by (simp add: split_beta split: option.splits)
  next
    case OT_ROUNDS_COMPLETE
    with Message show ?thesis
      using sendFinalSecrets_delivers [OF assms]
      by (simp add: split_beta split: option.splits)
  next
    case (REQUEST_SIGNED_URL i)
    with Message show ?thesis
      by (simp add: handle_REQUEST_SIGNED_URL_def split: option.splits)
  next
    case DOWNLOAD_READY
    with Message show ?thesis
      by (simp add: handle_DOWNLOAD_READY_def split_beta split: option.splits)
  next
    case (OtherMessage t)
    with Message show ?thesis by (simp split: option.splits)
  qed
next
  case (IntervalTick i)
  then show ?thesis
    using handleInitLogic_no_deliver [of purchaseId "(w, ss)"]
    by (simp add: interval_tick_def split_beta Let_def split: option.splits)
next
  case (StripeWebhook pi)
  then show ?thesis by (simp split: option.splits)
qed

lemma toy_sender2_facts:
  "new_SemiHonestOtSender toy_env 0 toy_books = (toy_sender2, 64)"
  "choiceBitCount toy_sender2 = 1" "currentRound toy_sender2 = 0"
proof -
  have n: "length toy_books = 2" by (simp add: toy_books_def)
  note f = new_sender_facts [OF surjective_pairing, of toy_env 0 toy_books]
  show "choiceBitCount toy_sender2 = 1"
    using f(2) by (simp add: toy_sender2_def choice_bits_ceillog2 n)
  then show "new_SemiHonestOtSender toy_env 0 toy_books = (toy_sender2, 64)"
    using f(6) by (simp add: toy_sender2_def prod_eq_iff)
  show "currentRound toy_sender2 = 0"
    using f(3) by (simp add: toy_sender2_def)
qed

lemma toy_select_books: "select_books toy_books = toy_books"
  by (simp add: select_books_def toy_books_def)

lemma toy_INIT:
  "handle_INIT toy_env ''p1'' (toy_world, new_session) ''alice-token''
     = ((toy_world, toy_session1), [Send ZKP_READY])"
  by (simp add: handle_INIT_def handleInitLogic_def select_purchase_def toy_env_def
      toy_world_def toy_purchase_def toy_session1_def new_session_def)

lemma toy_ZKP_PROVE:
  "handle_ZKP_PROVE toy_env ''p1'' (toy_world, toy_session1) ''valid'' [''42'', ''R'', ''C'']
     = ((toy_world2, toy_session2),
        [Groth16Verify [''42'', ''R'', ''C''] ''valid'', Send (OT_START 2)])"
proof -
  have u: "update_verified (Some ''42'') ''p1'' [toy_purchase]
             = Inr (1, [toy_purchase\<lparr>status := Verified, nullifier_hash := Some ''42''\<rparr>])"
    by (simp add: update_verified_def nullifier_conflict_def sql_update_def toy_purchase_def)
  have v: "groth16_verify toy_env [''42'', ''R'', ''C''] ''valid'' = Some True"
    by (simp add: toy_env_def)
  have c: "commitment toy_purchase = ''C''" by (simp add: toy_purchase_def)
  have n: "length toy_books = 2" by (simp add: toy_books_def)
  show ?thesis
    by (simp add: handle_ZKP_PROVE_def toy_session1_def toy_session2_def toy_world_def
        toy_world2_def nth_opt_def u v c n toy_select_books toy_sender2_facts(1))
qed

text \<open>
  C1, as claimed, fails: with two books (one round), a peer that authenticates, proves and
  then sends \<open>OT_ROUNDS_COMPLETE\<close> at once is sent the final secrets while the sender has
  accepted no round response at all.
\<close>

theorem C1_counterexample:
  "list_ex is_deliver (snd (run toy_env ''p1'' (toy_world, new_session) toy_events))
   \<and> map_option currentRound
        (otSender (snd (fst (run toy_env ''p1'' (toy_world, new_session) toy_events)))) = Some 0
   \<and> map_option choiceBitCount
        (otSender (snd (fst (run toy_env ''p1'' (toy_world, new_session) toy_events)))) = Some 1"
proof -
  from sendFinalSecrets_ok [OF toy_gcm_contract, of toy_sender2 64] obtain cs where
    d: "sendFinalSecrets toy_env toy_sender2 64
          = ([Send (OT_DELIVER cs)], 64 + 12 * length (bookSecrets toy_sender2))"
    by blast
  have r: "rng_pos toy_world2 = 64" "otSender toy_session2 = Some toy_sender2"
    by (simp_all add: toy_world2_def toy_session2_def)
  show ?thesis
    by (simp add: toy_events_def toy_INIT toy_ZKP_PROVE d r toy_sender2_facts)
qed

text \<open>
  C1, amended. In every state a session reaches, an event makes the engine send
  \<open>OT_DELIVER\<close> exactly when the OT sender exists and the event is either
  \<open>OT_ROUNDS_COMPLETE\<close>, whatever the number of round responses accepted so far, or
  \<open>OT_ACK_START\<close> with no rounds to run. The number of accepted responses (the round
  counter) never exceeds the number of rounds.
\<close>

theorem C1_delivery_on_signal:
  assumes "gcm_contract E"
    and "run E purchaseId (w_init, new_session) evs = ((w, ss), fx)"
  shows "(list_ex is_deliver (snd (step E purchaseId (w, ss) ev))
            = (case otSender ss of
                 None \<Rightarrow> False
               | Some s \<Rightarrow> ev = Message OT_ROUNDS_COMPLETE
                           \<or> (ev = Message OT_ACK_START \<and> choiceBitCount s = 0)))
       \<and> (case otSender ss of
             None \<Rightarrow> True
           | Some s \<Rightarrow> currentRound s \<le> choiceBitCount s
                       \<and> length (roundSeeds s) = choiceBitCount s)"
proof -
  have "session_inv (snd (w_init, new_session))"
    by (simp add: session_inv_def new_session_def)
  from run_inv [OF this, of E purchaseId evs] assms(2)
  have "session_inv ss" by simp
  then show ?thesis
    using step_delivers [OF assms(1), of purchaseId w ss ev]
    by (simp add: session_inv_def sender_inv_def split: option.splits)
qed


theorem C1_delivery_on_signal_witness:
  "list_ex is_deliver (snd (step toy_env ''p1'' (toy_world2, toy_session2)
                              (Message OT_ROUNDS_COMPLETE)))
   \<and> \<not> list_ex is_deliver (snd (step toy_env ''p1'' (toy_world2, toy_session2)
                                  (Message OT_ACK_START)))
   \<and> currentRound toy_sender2 \<le> choiceBitCount toy_sender2"
proof -
  have run2: "run toy_env ''p1'' (toy_world, new_session) (butlast toy_events)
                = ((toy_world2, toy_session2),
                   [Send ZKP_READY, Groth16Verify [''42'', ''R'', ''C''] ''valid'',
                    Send (OT_START 2)])"
    by (simp add: toy_events_def toy_INIT toy_ZKP_PROVE)
  have o: "otSender toy_session2 = Some toy_sender2"
    by (simp add: toy_session2_def)
  from C1_delivery_on_signal [OF toy_gcm_contract run2, of "Message OT_ROUNDS_COMPLETE"]
    C1_delivery_on_signal [OF toy_gcm_contract run2, of "Message OT_ACK_START"]
  show ?thesis
    by (simp add: o toy_sender2_facts)
qed

end
